theory Spec2Isabelle
  imports Complex_Main "HOL-Library.Word"
begin

section \<open>The audio-capture hook and the recording history of ielts-spk\<close>

text \<open>
  The repository holds two versions of the hook \<open>useAudioRecorder\<close>:
  \<^verbatim>\<open>src/hooks/useAudioRecorder.ts\<close> and \<^verbatim>\<open>unnamed/part_002\<close>. Both keep the same
  React state and the same refs. Definitions without a suffix follow
  \<^verbatim>\<open>src/hooks/useAudioRecorder.ts\<close>; a definition that ends in \<open>_p2\<close> follows
  \<^verbatim>\<open>unnamed/part_002\<close>, where that file differs.

  The hook has no status field. The words of the specification are read off the
  fields the user interface reads: Capturing is \<open>isRecording\<close>, Ready is
  \<open>\<not> isRecording\<close> with \<open>audioUrl\<close> present, Idle and Failed are
  \<open>\<not> isRecording\<close> with \<open>audioUrl\<close> absent.
\<close>

subsection \<open>Data\<close>

type_synonym byte = "8 word"

text \<open>A \<open>Blob\<close> is its bytes; \<open>blob.size\<close> is their number, and
  \<open>new Blob(parts)\<close> is the concatenation of the parts in order.\<close>

type_synonym Blob = "byte list"

text \<open>\<^verbatim>\<open>interface RecordingState\<close> of \<^verbatim>\<open>src/types/index.ts\<close>. An object URL
  (\<open>audioUrl\<close>) is the number the platform handed out for it.\<close>

record RecordingState =
  isRecording :: bool
  isPaused :: bool
  duration :: nat
  audioUrl :: "nat option"
  isUploading :: bool

datatype RecorderState = Inactive | Recording | Paused

text \<open>The \<open>onstop\<close> property of a recorder: the handler \<open>startRecording\<close>
  installs, or the wrapper \<open>stopRecording\<close> of \<^verbatim>\<open>part_002\<close> puts around the
  handler found there, which first clears a timeout.\<close>

datatype OnStop = InstalledByStart | ClearTimeoutThen nat OnStop

record MediaRecorder =
  state :: RecorderState
  onstop :: OnStop

text \<open>The callbacks \<^verbatim>\<open>part_002\<close> hands to \<open>setTimeout\<close>: the delayed part of its
  \<open>onstop\<close> handler (100 ms) and the fallback armed by \<open>stopRecording\<close> (2000 ms).\<close>

datatype TimeoutCallback = OnStopDelayed | StopFallback

datatype error = Error string | DOMException string

datatype completion = Returned | Threw error

text \<open>
  One record holds everything a callback of the hook can read or change: the two
  \<open>useState\<close> cells, the six refs, and the platform objects behind the refs
  (recorders by identity with their state and handler, live streams, open audio
  contexts, running intervals, pending timeouts with their delay, live object URLs
  with the blob they name, whether an animation-frame callback is pending, and the
  next unused identity).
\<close>

record session =
  recordingState :: RecordingState
  audioLevel :: real
  mediaRecorderRef :: "nat option"
  streamRef :: "nat option"
  chunksRef :: "Blob list"
  intervalRef :: "nat option"
  audioContextRef :: "nat option"
  analyserRef :: "nat option"
  recorders :: "nat \<Rightarrow> MediaRecorder option"
  liveStreams :: "nat set"
  openContexts :: "nat set"
  activeIntervals :: "nat set"
  timeouts :: "nat \<Rightarrow> (TimeoutCallback \<times> nat) option"
  objectUrls :: "nat \<Rightarrow> Blob option"
  framePending :: bool
  nextId :: nat

text \<open>Which platform calls throw in one invocation of a callback. The hook guards
  exactly these four calls with \<open>try\<close>/\<open>catch\<close> in \<open>forceReset\<close>. What is thrown
  does not matter to the hook, which logs it or lets it pass. The identities the
  platform hands out (timers, object URLs) are never falsy.\<close>

record platform =
  recorderStopThrows :: bool
  trackStopThrows :: bool
  contextCloseThrows :: bool
  revokeThrows :: bool

definition noFaults :: platform where
  "noFaults = \<lparr>recorderStopThrows = False, trackStopThrows = False,
     contextCloseThrows = False, revokeThrows = False\<rparr>"

text \<open>Where the \<open>try\<close> block of \<open>startRecording\<close> fails, if it does.\<close>

datatype StartFault =
  NoFault | DeviceDenied | AudioContextFailed | RecorderUnsupported | RecorderStartFailed

text \<open>The values of \<open>useState\<close> and \<open>useRef\<close> at mount, on a platform that has
  handed out nothing yet.\<close>

definition initialRecordingState :: RecordingState where
  "initialRecordingState = \<lparr>isRecording = False, isPaused = False, duration = 0,
     audioUrl = None, isUploading = False\<rparr>"

definition initialSession :: session where
  "initialSession = \<lparr>recordingState = initialRecordingState, audioLevel = 0,
     mediaRecorderRef = None, streamRef = None, chunksRef = [], intervalRef = None,
     audioContextRef = None, analyserRef = None,
     recorders = (\<lambda>_. None), liveStreams = {}, openContexts = {},
     activeIntervals = {}, timeouts = (\<lambda>_. None), objectUrls = (\<lambda>_. None),
     framePending = False, nextId = 0\<rparr>"

subsection \<open>Statements, exceptions and the platform calls\<close>

type_synonym stmt = "session \<Rightarrow> completion \<times> session"

text \<open>A block runs its statements in order and stops at the first that throws.\<close>

fun block :: "stmt list \<Rightarrow> stmt" where
  "block [] s = (Returned, s)"
| "block (c # cs) s =
     (case c s of (Returned, s') \<Rightarrow> block cs s' | (Threw e, s') \<Rightarrow> (Threw e, s'))"

text \<open>\<^verbatim>\<open>try { c } catch (error) { console.warn(...) }\<close>: the error is logged only.\<close>

definition tryCatchWarn :: "stmt \<Rightarrow> stmt" where
  "tryCatchWarn c s = (Returned, snd (c s))"

definition effect :: "(session \<Rightarrow> session) \<Rightarrow> stmt" where
  "effect f s = (Returned, f s)"

definition setRecordingState :: "(RecordingState \<Rightarrow> RecordingState) \<Rightarrow> session \<Rightarrow> session" where
  "setRecordingState f s = s\<lparr>recordingState := f (recordingState s)\<rparr>"

definition setAudioLevel :: "real \<Rightarrow> session \<Rightarrow> session" where
  "setAudioLevel v s = s\<lparr>audioLevel := v\<rparr>"

definition MediaRecorder_stop :: "platform \<Rightarrow> nat \<Rightarrow> stmt" where
  "MediaRecorder_stop p r s =
     (if recorderStopThrows p then (Threw (DOMException ''InvalidStateError''), s)
      else (Returned, s\<lparr>recorders := (recorders s)
              (r := map_option (\<lambda>m. m\<lparr>state := Inactive\<rparr>) (recorders s r))\<rparr>))"

definition tracks_stop :: "platform \<Rightarrow> nat \<Rightarrow> stmt" where
  "tracks_stop p st s =
     (if trackStopThrows p then (Threw (DOMException ''TrackStopError''), s)
      else (Returned, s\<lparr>liveStreams := liveStreams s - {st}\<rparr>))"

definition clearInterval :: "nat \<Rightarrow> session \<Rightarrow> session" where
  "clearInterval i s = s\<lparr>activeIntervals := activeIntervals s - {i}\<rparr>"

definition AudioContext_close :: "platform \<Rightarrow> nat \<Rightarrow> stmt" where
  "AudioContext_close p c s =
     (if contextCloseThrows p then (Threw (DOMException ''InvalidStateError''), s)
      else (Returned, s\<lparr>openContexts := openContexts s - {c}\<rparr>))"

definition revokeObjectURL :: "platform \<Rightarrow> nat \<Rightarrow> stmt" where
  "revokeObjectURL p u s =
     (if revokeThrows p then (Threw (DOMException ''RevokeError''), s)
      else (Returned, s\<lparr>objectUrls := (objectUrls s)(u := None)\<rparr>))"

definition createObjectURL :: "Blob \<Rightarrow> session \<Rightarrow> nat \<times> session" where
  "createObjectURL b s =
     (nextId s, s\<lparr>objectUrls := (objectUrls s)(nextId s \<mapsto> b), nextId := Suc (nextId s)\<rparr>)"

definition setTimeout :: "TimeoutCallback \<Rightarrow> nat \<Rightarrow> session \<Rightarrow> nat \<times> session" where
  "setTimeout cb ms s =
     (nextId s, s\<lparr>timeouts := (timeouts s)(nextId s \<mapsto> (cb, ms)), nextId := Suc (nextId s)\<rparr>)"

definition clearTimeout :: "nat \<Rightarrow> session \<Rightarrow> session" where
  "clearTimeout t s = s\<lparr>timeouts := (timeouts s)(t := None)\<rparr>"

subsection \<open>\<^verbatim>\<open>src/hooks/useAudioRecorder.ts\<close>\<close>

text \<open>\<open>updateAudioLevel\<close>, the closure built by \<open>startRecording\<close>: \<open>sample\<close> is
  what \<open>getByteFrequencyData\<close> writes, \<open>rec\<close> is \<open>recordingState.isRecording\<close> as
  the enclosing \<open>startRecording\<close> captured it. The level is the mean over 255 (as a
  real number, where the code computes in floating point).\<close>

definition updateAudioLevel :: "bool \<Rightarrow> byte list \<Rightarrow> session \<Rightarrow> session" where
  "updateAudioLevel rec sample s =
     (let s1 = (case analyserRef s of
                  Some a \<Rightarrow> setAudioLevel
                     (real (sum_list (map unat sample)) / real (length sample) / 255) s
                | None \<Rightarrow> s)
      in s1\<lparr>framePending := (framePending s \<or> rec)\<rparr>)"

text \<open>\<open>mediaRecorder.ondataavailable\<close> (the same in both files).\<close>

definition mediaRecorder_ondataavailable :: "Blob \<Rightarrow> session \<Rightarrow> session" where
  "mediaRecorder_ondataavailable d s =
     (if length d > 0 then s\<lparr>chunksRef := chunksRef s @ [d]\<rparr> else s)"

text \<open>\<open>mediaRecorder.onstop\<close> of \<^verbatim>\<open>useAudioRecorder.ts\<close>.\<close>

definition mediaRecorder_onstop :: "session \<Rightarrow> session" where
  "mediaRecorder_onstop s =
     (let blob = concat (chunksRef s);
          (url, s1) = createObjectURL blob s
      in setAudioLevel 0 (setRecordingState (\<lambda>prev. prev\<lparr>audioUrl := Some url\<rparr>) s1))"

text \<open>The callback of \<open>setInterval\<close>.\<close>

definition intervalTick :: "session \<Rightarrow> session" where
  "intervalTick s = setRecordingState (\<lambda>prev. prev\<lparr>duration := duration prev + 1\<rparr>) s"

text \<open>
  \<open>startRecording\<close>. \<open>fault\<close> says where the \<open>try\<close> block throws, \<open>sample\<close> is
  the analyser's data at the first \<open>updateAudioLevel\<close>, \<open>snap\<close> is the
  \<open>recordingState\<close> the callback closed over. Every exception is caught and replaced
  by the one \<open>Error\<close> the \<open>catch\<close> block throws; what was assigned before stays
  assigned. The file \<^verbatim>\<open>part_002\<close> has the same body apart from logging, the
  argument of \<open>mediaRecorder.start\<close> and a logging \<open>onerror\<close> handler; its \<open>onstop\<close>
  handler is \<open>mediaRecorder_onstop_p2\<close>.
\<close>

definition startError :: error where
  "startError = Error ''Failed to start recording. Please check microphone permissions.''"

definition startRecording :: "StartFault \<Rightarrow> byte list \<Rightarrow> RecordingState \<Rightarrow> stmt" where
  "startRecording fault sample snap s =
     (if fault = DeviceDenied then (Threw startError, s)
      else
        let stream = nextId s;
            s1 = s\<lparr>streamRef := Some stream, liveStreams := insert stream (liveStreams s),
                   nextId := Suc (nextId s)\<rparr>
        in if fault = AudioContextFailed then (Threw startError, s1)
        else
          let ctx = nextId s1;
              s2 = s1\<lparr>audioContextRef := Some ctx, analyserRef := Some ctx,
                      openContexts := insert ctx (openContexts s1), nextId := Suc (nextId s1)\<rparr>
          in if fault = RecorderUnsupported then (Threw startError, s2)
          else
            let r = nextId s2;
                s3 = s2\<lparr>mediaRecorderRef := Some r, chunksRef := [],
                        recorders := (recorders s2)
                           (r \<mapsto> \<lparr>state = Inactive, onstop = InstalledByStart\<rparr>),
                        nextId := Suc (nextId s2)\<rparr>
            in if fault = RecorderStartFailed then (Threw startError, s3)
            else
              let s4 = s3\<lparr>recorders := (recorders s3)
                           (r \<mapsto> \<lparr>state = Recording, onstop = InstalledByStart\<rparr>)\<rparr>;
                  s5 = updateAudioLevel (isRecording snap) sample s4;
                  s6 = setRecordingState (\<lambda>prev. prev\<lparr>isRecording := True, duration := 0\<rparr>) s5;
                  i = nextId s6
              in (Returned, s6\<lparr>intervalRef := Some i,
                                activeIntervals := insert i (activeIntervals s6),
                                nextId := Suc (nextId s6)\<rparr>))"

text \<open>\<open>stopRecording\<close>; \<open>snap\<close> is the \<open>recordingState\<close> of the render the callback
  belongs to (its dependency list is \<open>[recordingState.isRecording]\<close>).\<close>

definition stopRecording :: "platform \<Rightarrow> RecordingState \<Rightarrow> stmt" where
  "stopRecording p snap s =
     (case mediaRecorderRef s of
        None \<Rightarrow> (Returned, s)
      | Some r \<Rightarrow>
          if isRecording snap then
            block [
              MediaRecorder_stop p r,
              effect (setRecordingState (\<lambda>prev. prev\<lparr>isRecording := False\<rparr>)),
              (\<lambda>s'. case streamRef s' of Some st \<Rightarrow> tracks_stop p st s' | None \<Rightarrow> (Returned, s')),
              (\<lambda>s'. case intervalRef s' of Some i \<Rightarrow> effect (clearInterval i) s'
                                          | None \<Rightarrow> (Returned, s')),
              (\<lambda>s'. case audioContextRef s' of Some c \<Rightarrow> AudioContext_close p c s'
                                              | None \<Rightarrow> (Returned, s'))
            ] s
          else (Returned, s))"

text \<open>The tail shared by \<open>clearRecording\<close> and \<open>forceReset\<close>: the refs and both
  state cells go back to their initial values.\<close>

definition resetRefsAndState :: "session \<Rightarrow> session" where
  "resetRefsAndState s =
     setAudioLevel 0
       (setRecordingState (\<lambda>_. initialRecordingState)
          (s\<lparr>mediaRecorderRef := None, analyserRef := None, chunksRef := []\<rparr>))"

text \<open>\<open>clearRecording\<close>: no statement is guarded. \<open>snap\<close> is the captured
  \<open>recordingState\<close> (dependency list \<open>[recordingState.audioUrl]\<close>, so its
  \<open>isRecording\<close> may be older than the session's).\<close>

definition clearRecording :: "platform \<Rightarrow> RecordingState \<Rightarrow> stmt" where
  "clearRecording p snap =
     block [
       (\<lambda>s. case audioUrl snap of Some u \<Rightarrow> revokeObjectURL p u s | None \<Rightarrow> (Returned, s)),
       (\<lambda>s. case mediaRecorderRef s of
               Some r \<Rightarrow> if isRecording snap then MediaRecorder_stop p r s else (Returned, s)
             | None \<Rightarrow> (Returned, s)),
       (\<lambda>s. case streamRef s of
               Some st \<Rightarrow> block [tracks_stop p st, effect (\<lambda>s'. s'\<lparr>streamRef := None\<rparr>)] s
             | None \<Rightarrow> (Returned, s)),
       (\<lambda>s. case intervalRef s of
               Some i \<Rightarrow> effect (\<lambda>s'. (clearInterval i s')\<lparr>intervalRef := None\<rparr>) s
             | None \<Rightarrow> (Returned, s)),
       (\<lambda>s. case audioContextRef s of
               Some c \<Rightarrow> block [AudioContext_close p c,
                                 effect (\<lambda>s'. s'\<lparr>audioContextRef := None\<rparr>)] s
             | None \<Rightarrow> (Returned, s)),
       effect resetRefsAndState
     ]"

text \<open>\<open>forceReset\<close>: the same releases, in another order, the four platform calls
  each inside its own \<open>try\<close>/\<open>catch\<close>.\<close>

definition forceReset :: "platform \<Rightarrow> RecordingState \<Rightarrow> stmt" where
  "forceReset p snap =
     block [
       (\<lambda>s. case mediaRecorderRef s of
               Some r \<Rightarrow> if isRecording snap then tryCatchWarn (MediaRecorder_stop p r) s
                          else (Returned, s)
             | None \<Rightarrow> (Returned, s)),
       (\<lambda>s. case streamRef s of
               Some st \<Rightarrow> block [tryCatchWarn (tracks_stop p st),
                                  effect (\<lambda>s'. s'\<lparr>streamRef := None\<rparr>)] s
             | None \<Rightarrow> (Returned, s)),
       (\<lambda>s. case intervalRef s of
               Some i \<Rightarrow> effect (\<lambda>s'. (clearInterval i s')\<lparr>intervalRef := None\<rparr>) s
             | None \<Rightarrow> (Returned, s)),
       (\<lambda>s. case audioContextRef s of
               Some c \<Rightarrow> block [tryCatchWarn (AudioContext_close p c),
                                 effect (\<lambda>s'. s'\<lparr>audioContextRef := None\<rparr>)] s
             | None \<Rightarrow> (Returned, s)),
       (\<lambda>s. case audioUrl snap of Some u \<Rightarrow> tryCatchWarn (revokeObjectURL p u) s
                                 | None \<Rightarrow> (Returned, s)),
       effect resetRefsAndState
     ]"

text \<open>\<open>getAudioBlob\<close> (the same in both files), with the session it leaves.\<close>

definition getAudioBlob :: "session \<Rightarrow> Blob option \<times> session" where
  "getAudioBlob s =
     (if length (chunksRef s) > 0 then (Some (concat (chunksRef s)), s) else (None, s))"

subsection \<open>\<^verbatim>\<open>unnamed/part_002\<close>\<close>

text \<open>\<open>mediaRecorder.onstop\<close> as \<open>startRecording\<close> of \<^verbatim>\<open>part_002\<close> installs it: it
  only schedules its body 100 ms later.\<close>

definition mediaRecorder_onstop_p2 :: "session \<Rightarrow> session" where
  "mediaRecorder_onstop_p2 s = snd (setTimeout OnStopDelayed 100 s)"

text \<open>The body scheduled by \<open>mediaRecorder_onstop_p2\<close>. Both early returns leave
  \<open>audioLevel\<close> alone.\<close>

definition onstop_delayed_p2 :: "session \<Rightarrow> session" where
  "onstop_delayed_p2 s =
     (if length (chunksRef s) = 0
      then setRecordingState (\<lambda>prev. prev\<lparr>isRecording := False\<rparr>) s
      else
        let blob = concat (chunksRef s)
        in if length blob = 0
           then setRecordingState (\<lambda>prev. prev\<lparr>isRecording := False\<rparr>) s
           else
             let (url, s1) = createObjectURL blob s
             in setAudioLevel 0
                  (setRecordingState
                     (\<lambda>prev. prev\<lparr>audioUrl := Some url, isRecording := False\<rparr>) s1))"

text \<open>\<open>handleStopFallback\<close>.\<close>

definition handleStopFallback :: "session \<Rightarrow> session" where
  "handleStopFallback s =
     setAudioLevel 0
       (if length (chunksRef s) > 0
        then
          let blob = concat (chunksRef s);
              (url, s1) = createObjectURL blob s
          in setRecordingState (\<lambda>prev. prev\<lparr>audioUrl := Some url, isRecording := False\<rparr>) s1
        else setRecordingState (\<lambda>prev. prev\<lparr>isRecording := False\<rparr>) s)"

text \<open>
  \<open>stopRecording\<close> of \<^verbatim>\<open>part_002\<close>. The interval goes first. A recorder in state
  \<open>recording\<close> gets a 2000 ms timeout that runs \<open>handleStopFallback\<close>, and its
  \<open>onstop\<close> is wrapped so that it clears that timeout before the handler found
  there runs; otherwise \<open>handleStopFallback\<close> runs at once. The stream's tracks
  are stopped; the call that closes the audio context is commented out. A ref
  holds the recorder object itself, so it cannot dangle; the model gives that
  case the branch of a recorder that is not recording.
\<close>

definition stopRecording_p2 :: "platform \<Rightarrow> RecordingState \<Rightarrow> stmt" where
  "stopRecording_p2 p snap s =
     (case mediaRecorderRef s of
        None \<Rightarrow> (Returned, s)
      | Some r \<Rightarrow>
          if isRecording snap then
            block [
              (\<lambda>s'. case intervalRef s' of
                       Some i \<Rightarrow> effect (\<lambda>s''. (clearInterval i s'')\<lparr>intervalRef := None\<rparr>) s'
                     | None \<Rightarrow> (Returned, s')),
              (\<lambda>s'. case recorders s' r of
                       Some m \<Rightarrow>
                         if state m = Recording then
                           let (t, s1) = setTimeout StopFallback 2000 s';
                               s2 = s1\<lparr>recorders := (recorders s1)
                                       (r \<mapsto> m\<lparr>onstop := ClearTimeoutThen t (onstop m)\<rparr>)\<rparr>
                           in MediaRecorder_stop p r s2
                         else effect handleStopFallback s'
                     | None \<Rightarrow> effect handleStopFallback s'),
              (\<lambda>s'. case streamRef s' of Some st \<Rightarrow> tracks_stop p st s' | None \<Rightarrow> (Returned, s'))
            ] s
          else (Returned, s))"

text \<open>Running an \<open>onstop\<close> property of \<^verbatim>\<open>part_002\<close>: every wrapper clears its
  timeout, then the installed handler runs.\<close>

fun run_onstop_p2 :: "OnStop \<Rightarrow> session \<Rightarrow> session" where
  "run_onstop_p2 InstalledByStart s = mediaRecorder_onstop_p2 s"
| "run_onstop_p2 (ClearTimeoutThen t h) s = run_onstop_p2 h (clearTimeout t s)"

text \<open>The platform fires the \<open>stop\<close> event of recorder \<open>r\<close>, which is inactive by
  then.\<close>

definition recorderStopEvent_p2 :: "nat \<Rightarrow> session \<Rightarrow> session" where
  "recorderStopEvent_p2 r s =
     (case recorders s r of
        None \<Rightarrow> s
      | Some m \<Rightarrow> run_onstop_p2 (onstop m)
                    (s\<lparr>recorders := (recorders s)(r \<mapsto> m\<lparr>state := Inactive\<rparr>)\<rparr>))"

text \<open>The platform runs a pending timeout, once.\<close>

definition timeoutFired_p2 :: "nat \<Rightarrow> session \<Rightarrow> session" where
  "timeoutFired_p2 t s =
     (case timeouts s t of
        None \<Rightarrow> s
      | Some (cb, ms) \<Rightarrow>
          (case cb of
             OnStopDelayed \<Rightarrow> onstop_delayed_p2 (clearTimeout t s)
           | StopFallback \<Rightarrow> handleStopFallback (clearTimeout t s)))"

text \<open>Chunks delivered one after the other.\<close>

definition chunksArrive :: "Blob list \<Rightarrow> session \<Rightarrow> session" where
  "chunksArrive ds s = foldl (\<lambda>a d. mediaRecorder_ondataavailable d a) s ds"

subsection \<open>The host component \<open>AudioRecorder\<close> and the events of a session\<close>


text \<open>The effect \<^verbatim>\<open>Auto-stop recording when time limit reached\<close>; React runs it
  after a render in which one of its dependencies changed, with the
  \<open>stopRecording\<close> of that render.\<close>

definition autoStop :: "nat \<Rightarrow> platform \<Rightarrow> stmt" where
  "autoStop limit p s =
     (if isRecording (recordingState s) \<and> duration (recordingState s) \<ge> limit
      then stopRecording p (recordingState s) s
      else (Returned, s))"

text \<open>
  What can happen to a mounted hook of \<^verbatim>\<open>useAudioRecorder.ts\<close>: a platform callback
  or a user action. A user action carries the behaviour of the platform during its
  callback; \<open>ClearClicked\<close> and \<open>QuestionChanged\<close> also carry the \<open>isRecording\<close>
  their memoised callback captured (its dependency list names \<open>audioUrl\<close> only).
\<close>

datatype event =
    IntervalFired nat
  | DataAvailable Blob
  | RecorderStopped nat
  | AnimationFrame "byte list"
  | StartClicked StartFault "byte list"
  | StopClicked platform
  | ClearClicked platform bool
  | QuestionChanged platform bool

fun handleEvent :: "event \<Rightarrow> session \<Rightarrow> session" where
  "handleEvent (IntervalFired i) s = (if i \<in> activeIntervals s then intervalTick s else s)"
| "handleEvent (DataAvailable d) s = mediaRecorder_ondataavailable d s"
| "handleEvent (RecorderStopped r) s =
     (case recorders s r of
        None \<Rightarrow> s
      | Some m \<Rightarrow> mediaRecorder_onstop
                    (s\<lparr>recorders := (recorders s)(r \<mapsto> m\<lparr>state := Inactive\<rparr>)\<rparr>))"
| "handleEvent (AnimationFrame sample) s =
     (if framePending s then updateAudioLevel True sample s else s)"
| "handleEvent (StartClicked fault sample) s =
     snd (startRecording fault sample (recordingState s) s)"
| "handleEvent (StopClicked p) s = snd (stopRecording p (recordingState s) s)"
| "handleEvent (ClearClicked p b) s =
     snd (clearRecording p ((recordingState s)\<lparr>isRecording := b\<rparr>) s)"
| "handleEvent (QuestionChanged p b) s =
     snd (forceReset p ((recordingState s)\<lparr>isRecording := b\<rparr>) s)"

text \<open>
  A run of the mounted component. After the callback of each event React commits
  a render and then runs the auto-stop effect of that render, on a platform that
  behaves as \<open>p\<close> says during the effect. Nothing catches what the effect throws:
  the run ends there, with the hook as the effect left it, and React removes the
  component. (What a click handler throws is reported and the component stays
  mounted; \<open>forceReset\<close>, which the other effect of the component calls, does not
  throw.)
\<close>

fun hostRun :: "nat \<Rightarrow> platform \<Rightarrow> event list \<Rightarrow> session \<Rightarrow> completion \<times> session" where
  "hostRun limit p [] s = (Returned, s)"
| "hostRun limit p (ev # evs) s =
     (case autoStop limit p (handleEvent ev s) of
        (Returned, s') \<Rightarrow> hostRun limit p evs s'
      | (Threw e, s') \<Rightarrow> (Threw e, s'))"


definition handleEvents :: "event list \<Rightarrow> session \<Rightarrow> session" where
  "handleEvents evs s = foldl (\<lambda>a ev. handleEvent ev a) s evs"

subsection \<open>\<^verbatim>\<open>src/hooks/useRecordingHistory.ts\<close>\<close>

text \<open>\<^verbatim>\<open>interface UserRecording\<close>; its fields \<open>id\<close> and \<open>duration\<close> are
  \<open>recording_id\<close> and \<open>recording_duration\<close> here. \<open>created_at\<close> is the row's time
  stamp as the database orders it (the client holds its ISO text).\<close>

record UserRecording =
  recording_id :: string
  user_id :: string
  question_id :: string
  audio_url :: string
  recording_duration :: nat
  created_at :: nat

definition newest_first :: "UserRecording list \<Rightarrow> bool" where
  "newest_first xs = sorted_wrt (\<lambda>a b. created_at a \<ge> created_at b) xs"

text \<open>What the query of \<open>fetchRecordings\<close> asks of the table \<open>user_recordings\<close>:
  \<^verbatim>\<open>.eq('question_id', questionId).order('created_at', { ascending: false }).limit(5)\<close>.\<close>

definition select_recent :: "UserRecording list \<Rightarrow> string \<Rightarrow> UserRecording list" where
  "select_recent table questionId =
     take 5 (rev (sort_key created_at (filter (\<lambda>r. question_id r = questionId) table)))"

text \<open>The answer of the client library: rows, \<open>null\<close> data, or an error (with its
  message when it is an \<open>Error\<close> instance).\<close>

datatype query_result = Rows "UserRecording list" | NullData | QueryError "string option"

record history =
  recordings :: "UserRecording list"
  loading :: bool
  error :: "string option"

definition initialHistory :: history where
  "initialHistory = \<lparr>recordings = [], loading = False, error = None\<rparr>"

definition fetchRecordings :: "query_result \<Rightarrow> history \<Rightarrow> history" where
  "fetchRecordings res h =
     (let h1 = h\<lparr>loading := True, error := None\<rparr>;
          h2 = (case res of
                  QueryError m \<Rightarrow>
                    h1\<lparr>error := Some (case m of Some msg \<Rightarrow> msg
                                       | None \<Rightarrow> ''Failed to fetch recordings'')\<rparr>
                | NullData \<Rightarrow> h1\<lparr>recordings := []\<rparr>
                | Rows data \<Rightarrow> h1\<lparr>recordings := data\<rparr>)
      in h2\<lparr>loading := False\<rparr>)"

text \<open>\<^verbatim>\<open>setRecordings(prev => [recording, ...prev.slice(0, 4)])\<close>.\<close>

definition addRecording :: "UserRecording \<Rightarrow> history \<Rightarrow> history" where
  "addRecording recording h = h\<lparr>recordings := recording # take 4 (recordings h)\<rparr>"

text \<open>What happens to the history of one question: a fetch answered from the
  table as it is then, a fetch answered with \<open>null\<close> or an error, or a saved
  recording handed to \<open>addRecording\<close>.\<close>

datatype history_event =
    Fetched "UserRecording list"
  | FetchedNull
  | FetchFailed "string option"
  | RecordingAdded UserRecording

fun historyStep :: "string \<Rightarrow> history_event \<Rightarrow> history \<Rightarrow> history" where
  "historyStep q (Fetched table) h = fetchRecordings (Rows (select_recent table q)) h"
| "historyStep q FetchedNull h = fetchRecordings NullData h"
| "historyStep q (FetchFailed m) h = fetchRecordings (QueryError m) h"
| "historyStep q (RecordingAdded r) h = addRecording r h"

fun historyRun :: "string \<Rightarrow> history_event list \<Rightarrow> history \<Rightarrow> history" where
  "historyRun q [] h = h"
| "historyRun q (ev # evs) h = historyRun q evs (historyStep q ev h)"

text \<open>Every recording handed to \<open>addRecording\<close> is at least as new as the entries
  listed at that moment (the database stamps a row when it is inserted).\<close>

fun addsAreNewest :: "string \<Rightarrow> history_event list \<Rightarrow> history \<Rightarrow> bool" where
  "addsAreNewest q [] h = True"
| "addsAreNewest q (ev # evs) h =
     ((case ev of
         RecordingAdded r \<Rightarrow> list_all (\<lambda>x. created_at x \<le> created_at r) (recordings h)
       | _ \<Rightarrow> True)
      \<and> addsAreNewest q evs (historyStep q ev h))"

subsection \<open>Sessions used as examples\<close>

text \<open>A completed recording of two bytes: the identities handed out are stream 0,
  audio context 1, recorder 2, interval 3 and object URL 4.\<close>

definition readySession :: session where
  "readySession =
     handleEvents [StartClicked NoFault [], DataAvailable [1, 2], StopClicked noFaults,
                   RecorderStopped 2] initialSession"


text \<open>Start, stop, and the recorder's \<open>stop\<close> event with no chunk delivered.\<close>

definition emptyCapture :: session where
  "emptyCapture =
     handleEvents [StartClicked NoFault [], StopClicked noFaults, RecorderStopped 2]
       initialSession"

text \<open>The recorder stops by itself while the hook is recording (its only track ended):
  the platform delivers the data and fires \<open>stop\<close>; \<open>stopRecording\<close> was not called.\<close>

definition unpluggedSession :: session where
  "unpluggedSession =
     handleEvents [StartClicked NoFault [], DataAvailable [1, 2], RecorderStopped 2]
       initialSession"

text \<open>A platform on which \<open>MediaRecorder.stop()\<close> throws: the \<open>InvalidStateError\<close>
  that browsers raise when the recorder is inactive.\<close>

definition inactiveStopThrows :: platform where
  "inactiveStopThrows = noFaults\<lparr>recorderStopThrows := True\<rparr>"

text \<open>A session of \<^verbatim>\<open>part_002\<close> that is recording, with and without a chunk.\<close>

definition capturing_p2 :: session where
  "capturing_p2 =
     chunksArrive [[7, 8, 9]]
       (snd (startRecording NoFault [] initialRecordingState initialSession))"

definition capturingEmpty_p2 :: session where
  "capturingEmpty_p2 = snd (startRecording NoFault [] initialRecordingState initialSession)"


text \<open>A row of question \<open>q\<close> stamped \<open>n\<close>.\<close>

definition exampleRow :: "nat \<Rightarrow> UserRecording" where
  "exampleRow n = \<lparr>recording_id = ''r'', user_id = ''a'', question_id = ''q'',
     audio_url = ''u'', recording_duration = 10, created_at = n\<rparr>"

text \<open>The same three steps on \<^verbatim>\<open>part_002\<close>: stop with no chunk stored, the
  recorder's \<open>stop\<close> event, and the 100 ms timeout (identity 5) that event
  schedules.\<close>

definition emptyCapture_p2 :: session where
  "emptyCapture_p2 =
     timeoutFired_p2 5 (recorderStopEvent_p2 2
       (snd (stopRecording_p2 noFaults (recordingState capturingEmpty_p2) capturingEmpty_p2)))"

text \<open>On \<^verbatim>\<open>part_002\<close>: a completed recording of three bytes (its object URL is 6),
  and a second recording started from it, with no chunk delivered yet (stream 7,
  audio context 8, recorder 9, interval 10).\<close>

definition ready_p2 :: session where
  "ready_p2 =
     timeoutFired_p2 5 (recorderStopEvent_p2 2
       (snd (stopRecording_p2 noFaults (recordingState capturing_p2) capturing_p2)))"

definition recapturing_p2 :: session where
  "recapturing_p2 = snd (startRecording NoFault [] (recordingState ready_p2) ready_p2)"

text \<open>A table of six rows of question \<open>q\<close> and the events of its history: a fetch,
  then a seventh, newer recording is saved.\<close>

definition exampleTable :: "UserRecording list" where
  "exampleTable = [exampleRow 2, exampleRow 5, exampleRow 1, exampleRow 6, exampleRow 3,
     exampleRow 4]"

definition exampleHistory :: "history_event list" where
  "exampleHistory = [Fetched exampleTable, RecordingAdded (exampleRow 7)]"

section \<open>Properties\<close>

subsection \<open>Platform calls and chunk delivery\<close>

lemmas call_defs = setRecordingState_def setAudioLevel_def MediaRecorder_stop_def tracks_stop_def
  clearInterval_def AudioContext_close_def revokeObjectURL_def effect_def tryCatchWarn_def

lemmas trace_defs = handleEvents_def initialSession_def initialRecordingState_def
  startRecording_def stopRecording_def updateAudioLevel_def mediaRecorder_ondataavailable_def
  mediaRecorder_onstop_def createObjectURL_def noFaults_def Let_def

lemma chunksArrive_Nil: "chunksArrive [] s = s"
  by (simp add: chunksArrive_def)

lemma chunksArrive_Cons:
  "chunksArrive (d # ds) s = chunksArrive ds (mediaRecorder_ondataavailable d s)"
  by (simp add: chunksArrive_def)

lemma chunksRef_chunksArrive:
  "chunksRef (chunksArrive ds s) = chunksRef s @ filter (\<lambda>d. length d > 0) ds"
  by (induction ds arbitrary: s)
     (simp_all add: chunksArrive_Nil chunksArrive_Cons mediaRecorder_ondataavailable_def)

lemma chunksArrive_frame:
  "recordingState (chunksArrive ds s) = recordingState s
   \<and> audioLevel (chunksArrive ds s) = audioLevel s
   \<and> mediaRecorderRef (chunksArrive ds s) = mediaRecorderRef s
   \<and> recorders (chunksArrive ds s) = recorders s
   \<and> timeouts (chunksArrive ds s) = timeouts s
   \<and> objectUrls (chunksArrive ds s) = objectUrls s
   \<and> nextId (chunksArrive ds s) = nextId s"
  by (induction ds arbitrary: s)
     (simp_all add: chunksArrive_Nil chunksArrive_Cons mediaRecorder_ondataavailable_def)

subsection \<open>Stopping a capture\<close>

lemma stopRecording_noFaults_capturing:
  assumes "mediaRecorderRef s = Some r" and "isRecording snap"
  shows "fst (stopRecording noFaults snap s) = Returned
    \<and> recordingState (snd (stopRecording noFaults snap s))
        = (recordingState s)\<lparr>isRecording := False\<rparr>
    \<and> mediaRecorderRef (snd (stopRecording noFaults snap s)) = Some r
    \<and> recorders (snd (stopRecording noFaults snap s))
        = (recorders s)(r := map_option (\<lambda>m. m\<lparr>state := Inactive\<rparr>) (recorders s r))
    \<and> chunksRef (snd (stopRecording noFaults snap s)) = chunksRef s
    \<and> objectUrls (snd (stopRecording noFaults snap s)) = objectUrls s
    \<and> nextId (snd (stopRecording noFaults snap s)) = nextId s"
  using assms
  by (cases "streamRef s"; cases "intervalRef s"; cases "audioContextRef s")
     (simp_all add: stopRecording_def call_defs noFaults_def)

text \<open>
  \<^verbatim>\<open>useAudioRecorder.ts\<close>: after \<open>stopRecording\<close> on a recording hook, the chunks
  \<open>ds\<close> the recorder still delivers and its \<open>stop\<close> event, the hook is not recording
  and \<open>audioUrl\<close> names the concatenation of the stored chunks in arrival order;
  the blob's size is the sum of the chunk sizes. This holds with no chunk as well:
  the handle then names the empty blob.
\<close>

lemma stop_then_onstop:
  assumes "mediaRecorderRef s = Some r" and "recorders s r = Some m" and "isRecording snap"
  shows "let s3 = handleEvent (RecorderStopped r)
                    (chunksArrive ds (snd (stopRecording noFaults snap s)));
             chunks = chunksRef s @ filter (\<lambda>d. length d > 0) ds
         in \<not> isRecording (recordingState s3)
            \<and> audioUrl (recordingState s3) = Some (nextId s)
            \<and> objectUrls s3 (nextId s) = Some (concat chunks)
            \<and> length (concat chunks) = sum_list (map length chunks)"
proof -
  note a = stopRecording_noFaults_capturing [OF assms(1,3)]
  let ?s2 = "chunksArrive ds (snd (stopRecording noFaults snap s))"
  have r: "recorders ?s2 r = Some (m\<lparr>state := Inactive\<rparr>)"
    using a assms(2) by (simp add: chunksArrive_frame)
  have c: "chunksRef ?s2 = chunksRef s @ filter (\<lambda>d. length d > 0) ds"
    using a by (simp add: chunksRef_chunksArrive)
  have n: "nextId ?s2 = nextId s" "recordingState ?s2 = (recordingState s)\<lparr>isRecording := False\<rparr>"
    using a by (simp_all add: chunksArrive_frame)
  show ?thesis
    by (simp add: r c n Let_def mediaRecorder_onstop_def createObjectURL_def call_defs
          length_concat)
qed

lemma stopRecording_p2_arms_fallback:
  assumes "mediaRecorderRef s = Some r" and "recorders s r = Some m" and "state m = Recording"
    and "isRecording snap"
  shows "fst (stopRecording_p2 noFaults snap s) = Returned
    \<and> timeouts (snd (stopRecording_p2 noFaults snap s)) (nextId s) = Some (StopFallback, 2000)
    \<and> recorders (snd (stopRecording_p2 noFaults snap s)) r
        = Some (m\<lparr>onstop := ClearTimeoutThen (nextId s) (onstop m), state := Inactive\<rparr>)
    \<and> recordingState (snd (stopRecording_p2 noFaults snap s)) = recordingState s
    \<and> chunksRef (snd (stopRecording_p2 noFaults snap s)) = chunksRef s
    \<and> objectUrls (snd (stopRecording_p2 noFaults snap s)) = objectUrls s
    \<and> nextId (snd (stopRecording_p2 noFaults snap s)) = Suc (nextId s)"
  using assms
  by (cases "streamRef s"; cases "intervalRef s")
     (simp_all add: stopRecording_p2_def setTimeout_def call_defs noFaults_def)

lemma stopRecording_p2_not_recording:
  assumes "mediaRecorderRef s = Some r" and "recorders s r = Some m" and "state m \<noteq> Recording"
    and "isRecording snap"
  shows "fst (stopRecording_p2 noFaults snap s) = Returned
    \<and> recordingState (snd (stopRecording_p2 noFaults snap s))
        = recordingState (handleStopFallback s)
    \<and> objectUrls (snd (stopRecording_p2 noFaults snap s)) = objectUrls (handleStopFallback s)"
  using assms
  by (cases "streamRef s"; cases "intervalRef s")
     (simp_all add: stopRecording_p2_def handleStopFallback_def createObjectURL_def call_defs
        noFaults_def Let_def)

lemma handleStopFallback_result:
  "\<not> isRecording (recordingState (handleStopFallback s))
   \<and> audioLevel (handleStopFallback s) = 0
   \<and> (if chunksRef s = []
       then audioUrl (recordingState (handleStopFallback s)) = audioUrl (recordingState s)
            \<and> objectUrls (handleStopFallback s) = objectUrls s
       else audioUrl (recordingState (handleStopFallback s)) = Some (nextId s)
            \<and> objectUrls (handleStopFallback s) (nextId s) = Some (concat (chunksRef s)))"
  by (simp add: handleStopFallback_def createObjectURL_def call_defs)

lemma onstop_delayed_p2_result:
  "\<not> isRecording (recordingState (onstop_delayed_p2 s))
   \<and> (if chunksRef s = []
       then audioUrl (recordingState (onstop_delayed_p2 s)) = audioUrl (recordingState s)
            \<and> objectUrls (onstop_delayed_p2 s) = objectUrls s
       else concat (chunksRef s) \<noteq> [] \<longrightarrow>
            audioUrl (recordingState (onstop_delayed_p2 s)) = Some (nextId s)
            \<and> objectUrls (onstop_delayed_p2 s) (nextId s) = Some (concat (chunksRef s)))"
  by (simp add: onstop_delayed_p2_def createObjectURL_def call_defs)

text \<open>
  \<^verbatim>\<open>part_002\<close>: after \<open>stopRecording\<close> on a recording hook whose recorder is
  recording, the chunks \<open>ds\<close>, the recorder's \<open>stop\<close> event and the 100 ms timeout
  it schedules, the fallback is cleared and the hook is not recording; with a chunk
  stored \<open>audioUrl\<close> names the concatenation of the chunks, with none it is left as
  it was and no object URL is created.
\<close>

lemma stop_then_onstop_p2:
  assumes "mediaRecorderRef s = Some r" and "recorders s r = Some m" and "state m = Recording"
    and "onstop m = InstalledByStart" and "isRecording snap"
    and "\<forall>c \<in> set (chunksRef s). c \<noteq> []"
  shows "let s3 = recorderStopEvent_p2 r
                    (chunksArrive ds (snd (stopRecording_p2 noFaults snap s)));
             s4 = timeoutFired_p2 (Suc (nextId s)) s3;
             chunks = chunksRef s @ filter (\<lambda>d. length d > 0) ds
         in timeouts s3 (nextId s) = None
            \<and> timeouts s3 (Suc (nextId s)) = Some (OnStopDelayed, 100)
            \<and> \<not> isRecording (recordingState s4)
            \<and> (if chunks = []
                then audioUrl (recordingState s4) = audioUrl (recordingState s)
                     \<and> objectUrls s4 = objectUrls s
                else audioUrl (recordingState s4) = Some (Suc (Suc (nextId s)))
                     \<and> objectUrls s4 (Suc (Suc (nextId s))) = Some (concat chunks))"
proof -
  note a = stopRecording_p2_arms_fallback [OF assms(1,2,3,5)]
  let ?s2 = "chunksArrive ds (snd (stopRecording_p2 noFaults snap s))"
  let ?s3 = "recorderStopEvent_p2 r ?s2"
  let ?t = "Suc (nextId s)"
  have r: "recorders ?s2 r
      = Some (m\<lparr>onstop := ClearTimeoutThen (nextId s) InstalledByStart, state := Inactive\<rparr>)"
    using a assms(4) by (simp add: chunksArrive_frame)
  have c: "chunksRef ?s2 = chunksRef s @ filter (\<lambda>d. length d > 0) ds"
    using a by (simp add: chunksRef_chunksArrive)
  have n: "nextId ?s2 = Suc (nextId s)" "recordingState ?s2 = recordingState s"
      "objectUrls ?s2 = objectUrls s"
    using a by (simp_all add: chunksArrive_frame)
  have s3: "timeouts ?s3 (nextId s) = None" "timeouts ?s3 ?t = Some (OnStopDelayed, 100)"
      "chunksRef ?s3 = chunksRef ?s2" "nextId ?s3 = Suc (Suc (nextId s))"
      "recordingState ?s3 = recordingState s" "objectUrls ?s3 = objectUrls s"
    by (simp_all add: recorderStopEvent_p2_def r n mediaRecorder_onstop_p2_def setTimeout_def
          clearTimeout_def)
  have f: "timeoutFired_p2 ?t ?s3 = onstop_delayed_p2 (clearTimeout ?t ?s3)"
    by (simp add: timeoutFired_p2_def s3)
  have k: "chunksRef (clearTimeout ?t ?s3) = chunksRef s @ filter (\<lambda>d. length d > 0) ds"
      "nextId (clearTimeout ?t ?s3) = Suc (Suc (nextId s))"
      "recordingState (clearTimeout ?t ?s3) = recordingState s"
      "objectUrls (clearTimeout ?t ?s3) = objectUrls s"
    by (simp_all add: clearTimeout_def s3 c)
  have ne: "concat (chunksRef s @ filter (\<lambda>d. length d > 0) ds) \<noteq> []"
    if n: "chunksRef s @ filter (\<lambda>d. length d > 0) ds \<noteq> []"
  proof -
    have "\<forall>c \<in> set (chunksRef s @ filter (\<lambda>d. length d > 0) ds). c \<noteq> []"
      using assms(6) by auto
    moreover obtain c where "c \<in> set (chunksRef s @ filter (\<lambda>d. length d > 0) ds)"
      using n by (meson last_in_set)
    ultimately show ?thesis
      unfolding concat_eq_Nil_conv by blast
  qed
  show ?thesis
    using onstop_delayed_p2_result [of "clearTimeout ?t ?s3"] ne
    by (simp add: Let_def f k s3 split: if_splits)
qed

subsection \<open>Teardown\<close>

text \<open>
  \<open>forceReset\<close>, from any session, with any captured state and whichever platform
  calls throwing: it returns normally, both state cells and all six refs are back
  at their initial values.
\<close>

lemma forceReset_always_resets:
  "fst (forceReset p snap s) = Returned
   \<and> recordingState (snd (forceReset p snap s)) = initialRecordingState
   \<and> audioLevel (snd (forceReset p snap s)) = 0
   \<and> chunksRef (snd (forceReset p snap s)) = []
   \<and> mediaRecorderRef (snd (forceReset p snap s)) = None
   \<and> streamRef (snd (forceReset p snap s)) = None
   \<and> intervalRef (snd (forceReset p snap s)) = None
   \<and> audioContextRef (snd (forceReset p snap s)) = None
   \<and> analyserRef (snd (forceReset p snap s)) = None"
  by (cases "mediaRecorderRef s"; cases "streamRef s"; cases "intervalRef s";
      cases "audioContextRef s"; cases "audioUrl snap")
     (simp_all add: forceReset_def resetRefsAndState_def call_defs)

text \<open>
  Each release of \<open>forceReset\<close> takes effect unless its own call throws, whatever the
  other calls do: the stream's tracks are stopped, the interval is cleared, the audio
  context is closed, the captured object URL is revoked.
\<close>

lemma forceReset_releases_each:
  "(streamRef s = Some st \<and> \<not> trackStopThrows p \<longrightarrow> st \<notin> liveStreams (snd (forceReset p snap s)))
   \<and> (intervalRef s = Some i \<longrightarrow> i \<notin> activeIntervals (snd (forceReset p snap s)))
   \<and> (audioContextRef s = Some c \<and> \<not> contextCloseThrows p
        \<longrightarrow> c \<notin> openContexts (snd (forceReset p snap s)))
   \<and> (audioUrl snap = Some u \<and> \<not> revokeThrows p
        \<longrightarrow> objectUrls (snd (forceReset p snap s)) u = None)"
  by (cases "mediaRecorderRef s"; cases "streamRef s"; cases "intervalRef s";
      cases "audioContextRef s"; cases "audioUrl snap")
     (simp_all add: forceReset_def resetRefsAndState_def call_defs)

text \<open>\<open>clearRecording\<close> does the same when no platform call throws.\<close>

lemma clearRecording_noFaults_resets:
  "fst (clearRecording noFaults snap s) = Returned
   \<and> recordingState (snd (clearRecording noFaults snap s)) = initialRecordingState
   \<and> audioLevel (snd (clearRecording noFaults snap s)) = 0
   \<and> chunksRef (snd (clearRecording noFaults snap s)) = []
   \<and> mediaRecorderRef (snd (clearRecording noFaults snap s)) = None
   \<and> streamRef (snd (clearRecording noFaults snap s)) = None
   \<and> intervalRef (snd (clearRecording noFaults snap s)) = None
   \<and> audioContextRef (snd (clearRecording noFaults snap s)) = None
   \<and> analyserRef (snd (clearRecording noFaults snap s)) = None"
  by (cases "mediaRecorderRef s"; cases "streamRef s"; cases "intervalRef s";
      cases "audioContextRef s"; cases "audioUrl snap")
     (simp_all add: clearRecording_def resetRefsAndState_def call_defs noFaults_def)

subsection \<open>Callbacks under any platform behaviour\<close>

lemma stopRecording_frame:
  "mediaRecorderRef (snd (stopRecording p snap s)) = mediaRecorderRef s
   \<and> audioUrl (recordingState (snd (stopRecording p snap s))) = audioUrl (recordingState s)
   \<and> duration (recordingState (snd (stopRecording p snap s))) = duration (recordingState s)
   \<and> (isRecording (recordingState (snd (stopRecording p snap s)))
        \<longrightarrow> isRecording (recordingState s))"
  by (cases "mediaRecorderRef s"; cases "streamRef s"; cases "intervalRef s";
      cases "audioContextRef s"; cases "isRecording snap")
     (simp_all add: stopRecording_def call_defs)


text \<open>\<open>clearRecording\<close> either runs to its end and resets, or throws before the reset
  with both state cells and \<open>mediaRecorderRef\<close> untouched.\<close>

lemma clearRecording_any:
  "recordingState (snd (clearRecording p snap s)) = initialRecordingState
     \<and> mediaRecorderRef (snd (clearRecording p snap s)) = None
     \<and> fst (clearRecording p snap s) = Returned
   \<or> recordingState (snd (clearRecording p snap s)) = recordingState s
     \<and> mediaRecorderRef (snd (clearRecording p snap s)) = mediaRecorderRef s
     \<and> fst (clearRecording p snap s) \<noteq> Returned"
  by (cases "mediaRecorderRef s"; cases "streamRef s"; cases "intervalRef s";
      cases "audioContextRef s"; cases "audioUrl snap")
     (simp_all add: clearRecording_def resetRefsAndState_def call_defs)

text \<open>What a successful \<open>startRecording\<close> and the chunks \<open>cs\<close> delivered during the
  capture leave: the recorder is the third identity handed out.\<close>

lemma started_session:
  "mediaRecorderRef (chunksArrive cs (snd (startRecording NoFault sample snap s)))
     = Some (nextId s + 2)
   \<and> recorders (chunksArrive cs (snd (startRecording NoFault sample snap s))) (nextId s + 2)
     = Some \<lparr>state = Recording, onstop = InstalledByStart\<rparr>
   \<and> isRecording (recordingState (chunksArrive cs (snd (startRecording NoFault sample snap s))))
   \<and> duration (recordingState (chunksArrive cs (snd (startRecording NoFault sample snap s)))) = 0
   \<and> audioUrl (recordingState (chunksArrive cs (snd (startRecording NoFault sample snap s))))
     = audioUrl (recordingState s)
   \<and> chunksRef (chunksArrive cs (snd (startRecording NoFault sample snap s)))
     = filter (\<lambda>d. length d > 0) cs
   \<and> objectUrls (chunksArrive cs (snd (startRecording NoFault sample snap s))) = objectUrls s
   \<and> nextId (chunksArrive cs (snd (startRecording NoFault sample snap s))) = nextId s + 4"
  by (simp add: chunksArrive_frame chunksRef_chunksArrive)
     (simp add: startRecording_def Let_def updateAudioLevel_def call_defs split: option.splits)

subsection \<open>The auto-stop effect\<close>







lemma hostRun_append:
  "hostRun limit p (evs @ evs') s =
     (case hostRun limit p evs s of
        (Returned, s') \<Rightarrow> hostRun limit p evs' s'
      | (Threw e, s') \<Rightarrow> (Threw e, s'))"
  by (induction evs arbitrary: s) (auto split: prod.splits completion.splits)


text \<open>While the limit is not reached, \<open>n\<close> ticks of the running interval only
  advance \<open>duration\<close> by \<open>n\<close>, and no effect throws.\<close>

lemma ticks_below_limit:
  "i \<in> activeIntervals s \<Longrightarrow> isRecording (recordingState s) \<Longrightarrow>
   duration (recordingState s) + n < limit \<Longrightarrow>
   hostRun limit p (replicate n (IntervalFired i)) s
     = (Returned, setRecordingState (\<lambda>prev. prev\<lparr>duration := duration prev + n\<rparr>) s)"
proof (induction n arbitrary: s)
  case 0
  then show ?case by (simp add: setRecordingState_def)
next
  case (Suc n)
  have t: "autoStop limit p (handleEvent (IntervalFired i) s) = (Returned, intervalTick s)"
    using Suc.prems by (simp add: autoStop_def intervalTick_def setRecordingState_def)
  have "hostRun limit p (replicate n (IntervalFired i)) (intervalTick s)
      = (Returned, setRecordingState (\<lambda>prev. prev\<lparr>duration := duration prev + n\<rparr>)
                     (intervalTick s))"
    using Suc.prems
    by (intro Suc.IH) (simp_all add: intervalTick_def setRecordingState_def)
  then show ?case
    using t by (simp add: intervalTick_def setRecordingState_def)
qed

subsection \<open>The recording history\<close>

lemma select_recent_length: "length (select_recent table q) \<le> 5"
  by (simp add: select_recent_def)

lemma newest_first_rev_sort: "newest_first (rev (sort_key created_at xs))"
  unfolding newest_first_def
  using sorted_sort_key [of created_at xs]
  by (simp add: sorted_wrt_rev sorted_map)

lemma select_recent_newest_first: "newest_first (select_recent table q)"
  using newest_first_rev_sort [of "filter (\<lambda>r. question_id r = q) table"]
  by (simp add: select_recent_def newest_first_def)

lemma select_recent_subset:
  "set (select_recent table q) \<subseteq> {r \<in> set table. question_id r = q}"
proof -
  have "set (select_recent table q)
      \<subseteq> set (rev (sort_key created_at (filter (\<lambda>r. question_id r = q) table)))"
    unfolding select_recent_def by (rule set_take_subset)
  then show ?thesis by auto
qed

lemma select_recent_most_recent:
  assumes "r \<in> set table" and "question_id r = q" and "r \<notin> set (select_recent table q)"
    and "x \<in> set (select_recent table q)"
  shows "created_at r \<le> created_at x"
proof -
  let ?L = "rev (sort_key created_at (filter (\<lambda>r. question_id r = q) table))"
  have "r \<in> set ?L" using assms(1,2) by simp
  then have "r \<in> set (take 5 ?L) \<union> set (drop 5 ?L)"
    by (metis append_take_drop_id set_append)
  then have d: "r \<in> set (drop 5 ?L)" using assms(3) by (simp add: select_recent_def)
  have "sorted_wrt (\<lambda>a b. created_at a \<ge> created_at b) (take 5 ?L @ drop 5 ?L)"
    using newest_first_rev_sort [of "filter (\<lambda>r. question_id r = q) table"]
    by (simp add: newest_first_def)
  then have "\<forall>a \<in> set (take 5 ?L). \<forall>b \<in> set (drop 5 ?L). created_at a \<ge> created_at b"
    unfolding sorted_wrt_append by blast
  then show ?thesis using d assms(4) by (simp add: select_recent_def)
qed

lemma historyStep_length:
  "length (recordings h) \<le> 5 \<Longrightarrow> length (recordings (historyStep q ev h)) \<le> 5"
  by (cases ev) (simp_all add: fetchRecordings_def addRecording_def select_recent_def)

lemma historyRun_length:
  "length (recordings h) \<le> 5 \<Longrightarrow> length (recordings (historyRun q evs h)) \<le> 5"
  by (induction evs arbitrary: h) (simp_all add: historyStep_length)

lemma addRecording_newest_first:
  assumes "newest_first (recordings h)"
    and "list_all (\<lambda>x. created_at x \<le> created_at r) (recordings h)"
  shows "newest_first (recordings (addRecording r h))"
proof -
  have "newest_first (take 4 (recordings h))"
    using assms(1) by (simp add: newest_first_def)
  moreover have "\<forall>x \<in> set (take 4 (recordings h)). created_at x \<le> created_at r"
    using assms(2) by (metis in_set_takeD list_all_iff)
  ultimately show ?thesis by (simp add: addRecording_def newest_first_def)
qed

lemma historyStep_newest_first:
  assumes "newest_first (recordings h)"
    and "case ev of
           RecordingAdded r \<Rightarrow> list_all (\<lambda>x. created_at x \<le> created_at r) (recordings h)
         | _ \<Rightarrow> True"
  shows "newest_first (recordings (historyStep q ev h))"
proof (cases ev)
  case (Fetched table)
  then show ?thesis using select_recent_newest_first by (simp add: fetchRecordings_def)
next
  case FetchedNull
  then show ?thesis by (simp add: fetchRecordings_def newest_first_def)
next
  case (FetchFailed m)
  then show ?thesis using assms(1) by (simp add: fetchRecordings_def)
next
  case (RecordingAdded r)
  then show ?thesis using assms addRecording_newest_first by simp
qed

lemma historyRun_newest_first:
  "newest_first (recordings h) \<Longrightarrow> addsAreNewest q evs h \<Longrightarrow>
   newest_first (recordings (historyRun q evs h))"
  by (induction evs arbitrary: h) (simp_all add: historyStep_newest_first)

subsection \<open>The example sessions\<close>

lemmas p2_defs = stopRecording_p2_def setTimeout_def clearTimeout_def recorderStopEvent_p2_def
  mediaRecorder_onstop_p2_def timeoutFired_p2_def onstop_delayed_p2_def handleStopFallback_def

lemma readySession_facts:
  "recordingState readySession =
     \<lparr>isRecording = False, isPaused = False, duration = 0, audioUrl = Some 4,
      isUploading = False\<rparr>
   \<and> objectUrls readySession 4 = Some [1, 2]"
  by (simp add: readySession_def trace_defs call_defs)

lemma capturing_p2_facts:
  "recordingState capturing_p2 =
     \<lparr>isRecording = True, isPaused = False, duration = 0, audioUrl = None,
      isUploading = False\<rparr>
   \<and> mediaRecorderRef capturing_p2 = Some 2
   \<and> recorders capturing_p2 2 = Some \<lparr>state = Recording, onstop = InstalledByStart\<rparr>
   \<and> chunksRef capturing_p2 = [[7, 8, 9]] \<and> nextId capturing_p2 = 4"
  by (simp add: capturing_p2_def chunksArrive_def trace_defs call_defs)

lemma ready_p2_facts:
  "recordingState ready_p2 =
     \<lparr>isRecording = False, isPaused = False, duration = 0, audioUrl = Some 6,
      isUploading = False\<rparr>
   \<and> objectUrls ready_p2 6 = Some [7, 8, 9] \<and> nextId ready_p2 = 7"
  by (simp add: ready_p2_def capturing_p2_def chunksArrive_def trace_defs call_defs p2_defs)

lemma recapturing_p2_facts:
  "recordingState recapturing_p2 =
     \<lparr>isRecording = True, isPaused = False, duration = 0, audioUrl = Some 6,
      isUploading = False\<rparr>
   \<and> objectUrls recapturing_p2 6 = Some [7, 8, 9] \<and> nextId recapturing_p2 = 11
   \<and> chunksRef recapturing_p2 = [] \<and> mediaRecorderRef recapturing_p2 = Some 9
   \<and> recorders recapturing_p2 9 = Some \<lparr>state = Recording, onstop = InstalledByStart\<rparr>
   \<and> streamRef recapturing_p2 = Some 7 \<and> intervalRef recapturing_p2 = Some 10"
  using ready_p2_facts
  by (simp add: recapturing_p2_def startRecording_def Let_def updateAudioLevel_def call_defs
        split: option.splits)


lemma unpluggedSession_facts:
  "recordingState unpluggedSession =
     \<lparr>isRecording = True, isPaused = False, duration = 0, audioUrl = Some 4,
      isUploading = False\<rparr>
   \<and> mediaRecorderRef unpluggedSession = Some 2 \<and> 3 \<in> activeIntervals unpluggedSession"
  by (simp add: unpluggedSession_def trace_defs call_defs)

text \<open>
  Ninety ticks under a limit of 90, from a session \<open>s\<close> that is recording with
  \<open>duration\<close> 0, recorder 2 and the running interval 3. The first 89 only advance
  \<open>duration\<close>. The render after the ninetieth tick is recording with \<open>duration\<close>
  90; the effect that follows it calls \<open>stopRecording\<close>.
\<close>

lemma eighty_nine_ticks:
  assumes "isRecording (recordingState s)" and "duration (recordingState s) = 0"
    and "3 \<in> activeIntervals s"
  shows "hostRun 90 p (replicate 89 (IntervalFired 3)) s
      = (Returned, setRecordingState (\<lambda>prev. prev\<lparr>duration := duration prev + 89\<rparr>) s)"
  using assms by (intro ticks_below_limit) simp_all

lemma render_of_the_ninetieth_tick:
  assumes "isRecording (recordingState s)" and "duration (recordingState s) = 0"
    and "3 \<in> activeIntervals s"
  shows "isRecording (recordingState (handleEvent (IntervalFired 3)
            (snd (hostRun 90 p (replicate 89 (IntervalFired 3)) s))))
    \<and> duration (recordingState (handleEvent (IntervalFired 3)
            (snd (hostRun 90 p (replicate 89 (IntervalFired 3)) s)))) = 90
    \<and> mediaRecorderRef (handleEvent (IntervalFired 3)
            (snd (hostRun 90 p (replicate 89 (IntervalFired 3)) s))) = mediaRecorderRef s"
  using assms
  by (simp add: eighty_nine_ticks [OF assms] intervalTick_def setRecordingState_def)

lemma ninety_ticks:
  assumes "isRecording (recordingState s)" and "duration (recordingState s) = 0"
    and "3 \<in> activeIntervals s"
  shows "hostRun 90 p (replicate 89 (IntervalFired 3) @ [IntervalFired 3]) s
      = autoStop 90 p (handleEvent (IntervalFired 3)
          (snd (hostRun 90 p (replicate 89 (IntervalFired 3)) s)))"
  by (simp add: hostRun_append eighty_nine_ticks [OF assms]
        split: prod.splits completion.splits)

text \<open>
  When the recorder has stopped by itself and \<open>stop()\<close> of an inactive recorder
  throws, the auto-stop effect of the render with \<open>duration\<close> 90 throws out of
  \<open>stopRecording\<close> before \<open>isRecording\<close> is cleared: the run ends with the hook
  recording at the limit. (\<open>stopRecording\<close> of \<^verbatim>\<open>part_002\<close> tests the recorder's
  state before it calls \<open>stop()\<close>, and \<open>forceReset\<close> guards the call.)
\<close>

lemma auto_stop_effect_throws_on_inactive_recorder:
  "fst (hostRun 90 inactiveStopThrows (replicate 89 (IntervalFired 3) @ [IntervalFired 3])
          unpluggedSession) = Threw (DOMException ''InvalidStateError'')
   \<and> isRecording (recordingState
        (snd (hostRun 90 inactiveStopThrows (replicate 89 (IntervalFired 3) @ [IntervalFired 3])
          unpluggedSession)))
   \<and> duration (recordingState
        (snd (hostRun 90 inactiveStopThrows (replicate 89 (IntervalFired 3) @ [IntervalFired 3])
          unpluggedSession))) = 90"
proof -
  have u: "isRecording (recordingState unpluggedSession)"
    "duration (recordingState unpluggedSession) = 0" "3 \<in> activeIntervals unpluggedSession"
    using unpluggedSession_facts by simp_all
  note r = render_of_the_ninetieth_tick [OF u, of inactiveStopThrows]
  let ?c = "handleEvent (IntervalFired 3)
      (snd (hostRun 90 inactiveStopThrows (replicate 89 (IntervalFired 3)) unpluggedSession))"
  have m: "mediaRecorderRef ?c = Some 2"
    using r unpluggedSession_facts by simp
  have "autoStop 90 inactiveStopThrows ?c = (Threw (DOMException ''InvalidStateError''), ?c)"
    using r m
    by (simp add: autoStop_def stopRecording_def MediaRecorder_stop_def inactiveStopThrows_def
          del: handleEvent.simps)
  then show ?thesis
    using r by (simp add: ninety_ticks [OF u] del: handleEvent.simps)
qed

text \<open>
  Start, stop and the recorder's \<open>stop\<close> event with no chunk delivered.
  \<^verbatim>\<open>useAudioRecorder.ts\<close> sets \<open>audioUrl\<close> to a fresh object URL (identity 4) that
  names the empty blob. \<^verbatim>\<open>part_002\<close>, which tests
  \<open>chunksRef.current.length === 0\<close>, creates no object URL and leaves \<open>audioUrl\<close>
  absent.
\<close>

lemma empty_capture_in_both_files:
  "recordingState emptyCapture =
     \<lparr>isRecording = False, isPaused = False, duration = 0, audioUrl = Some 4,
      isUploading = False\<rparr>
   \<and> chunksRef emptyCapture = []
   \<and> objectUrls emptyCapture 4 = Some []
   \<and> recordingState emptyCapture_p2 =
     \<lparr>isRecording = False, isPaused = False, duration = 0, audioUrl = None,
      isUploading = False\<rparr>
   \<and> chunksRef emptyCapture_p2 = []
   \<and> objectUrls emptyCapture_p2 = (\<lambda>_. None)"
proof -
  have a: "recordingState emptyCapture =
      \<lparr>isRecording = False, isPaused = False, duration = 0, audioUrl = Some 4,
       isUploading = False\<rparr>
     \<and> chunksRef emptyCapture = [] \<and> objectUrls emptyCapture 4 = Some []"
    by (simp add: emptyCapture_def trace_defs call_defs)
  have c: "recordingState emptyCapture_p2 =
      \<lparr>isRecording = False, isPaused = False, duration = 0, audioUrl = None,
       isUploading = False\<rparr>
     \<and> chunksRef emptyCapture_p2 = [] \<and> objectUrls emptyCapture_p2 = (\<lambda>_. None)"
    by (simp add: emptyCapture_p2_def capturingEmpty_p2_def trace_defs call_defs p2_defs)
  show ?thesis using a c by simp
qed

section \<open>The claims\<close>

text \<open>
  C1, as amended. A capture is started successfully from any session, chunks \<open>cs\<close>
  arrive, \<open>stopRecording\<close> is called, further chunks \<open>ds\<close> arrive and the recorder's
  completion callback runs (in \<^verbatim>\<open>part_002\<close> with the 100 ms timeout it schedules).
  Then the hook is not recording. When at least one non-empty chunk arrived,
  \<open>audioUrl\<close> is a fresh object URL naming the concatenation of the chunks in
  arrival order, whose size is the sum of the chunk sizes (both files). When none
  arrived, \<^verbatim>\<open>part_002\<close> creates no object URL and leaves \<open>audioUrl\<close> as it was before
  the capture started: absent, unless a previous recording's handle was present.
  (What \<^verbatim>\<open>useAudioRecorder.ts\<close> does with no chunk is shown in
  \<open>empty_capture_in_both_files\<close>.)
\<close>

theorem C1_completed_stop_assembles_the_chunks:
  "let s = chunksArrive cs (snd (startRecording NoFault sample snap0 s0));
       r = nextId s0 + 2;
       chunks = filter (\<lambda>d. length d > 0) (cs @ ds);
       a = handleEvent (RecorderStopped r)
             (chunksArrive ds (snd (stopRecording noFaults (recordingState s) s)));
       b = timeoutFired_p2 (Suc (nextId s)) (recorderStopEvent_p2 r
             (chunksArrive ds (snd (stopRecording_p2 noFaults (recordingState s) s))))
   in \<not> isRecording (recordingState a) \<and> \<not> isRecording (recordingState b)
      \<and> length (concat chunks) = sum_list (map length chunks)
      \<and> (if chunks = []
          then audioUrl (recordingState b) = audioUrl (recordingState s0)
               \<and> objectUrls b = objectUrls s0
          else audioUrl (recordingState a) = Some (nextId s)
               \<and> objectUrls a (nextId s) = Some (concat chunks)
               \<and> audioUrl (recordingState b) = Some (nextId s + 2)
               \<and> objectUrls b (nextId s + 2) = Some (concat chunks))"
proof -
  let ?s = "chunksArrive cs (snd (startRecording NoFault sample snap0 s0))"
  note f = started_session [of cs sample snap0 s0]
  have h1: "mediaRecorderRef ?s = Some (nextId s0 + 2)"
    and h2: "recorders ?s (nextId s0 + 2)
        = Some \<lparr>state = Recording, onstop = InstalledByStart\<rparr>"
    and h3: "isRecording (recordingState ?s)"
    and h4: "\<forall>c \<in> set (chunksRef ?s). c \<noteq> []"
    using f by simp_all
  have c: "chunksRef ?s @ filter (\<lambda>d. length d > 0) ds = filter (\<lambda>d. length d > 0) (cs @ ds)"
    using f by simp
  have A: "let s3 = handleEvent (RecorderStopped (nextId s0 + 2))
                    (chunksArrive ds (snd (stopRecording noFaults (recordingState ?s) ?s)));
             chunks = chunksRef ?s @ filter (\<lambda>d. length d > 0) ds
         in \<not> isRecording (recordingState s3)
            \<and> audioUrl (recordingState s3) = Some (nextId ?s)
            \<and> objectUrls s3 (nextId ?s) = Some (concat chunks)
            \<and> length (concat chunks) = sum_list (map length chunks)"
    by (rule stop_then_onstop [OF h1 h2 h3])
  have B: "let s3 = recorderStopEvent_p2 (nextId s0 + 2)
                    (chunksArrive ds (snd (stopRecording_p2 noFaults (recordingState ?s) ?s)));
             s4 = timeoutFired_p2 (Suc (nextId ?s)) s3;
             chunks = chunksRef ?s @ filter (\<lambda>d. length d > 0) ds
         in timeouts s3 (nextId ?s) = None
            \<and> timeouts s3 (Suc (nextId ?s)) = Some (OnStopDelayed, 100)
            \<and> \<not> isRecording (recordingState s4)
            \<and> (if chunks = []
                then audioUrl (recordingState s4) = audioUrl (recordingState ?s)
                     \<and> objectUrls s4 = objectUrls ?s
                else audioUrl (recordingState s4) = Some (Suc (Suc (nextId ?s)))
                     \<and> objectUrls s4 (Suc (Suc (nextId ?s))) = Some (concat chunks))"
    by (rule stop_then_onstop_p2 [OF h1 h2 _ _ h3 h4]) simp_all
  have g: "audioUrl (recordingState ?s) = audioUrl (recordingState s0)"
    "objectUrls ?s = objectUrls s0"
    using f by simp_all
  show ?thesis
    using A B
    unfolding Let_def c g
    by (simp del: handleEvent.simps filter_append split: if_splits)
qed

text \<open>The claim as stated fails on a second recording of \<^verbatim>\<open>part_002\<close> that gets no
  chunk: after stop, the \<open>stop\<close> event (of recorder 9) and its timeout (identity
  12) the hook is not recording, and \<open>audioUrl\<close> still holds the first recording's
  object URL 6 with its three bytes.\<close>

theorem C1_no_chunk_leaves_the_previous_handle:
  "isRecording (recordingState recapturing_p2) \<and> chunksRef recapturing_p2 = []
   \<and> recordingState (timeoutFired_p2 12 (recorderStopEvent_p2 9
        (snd (stopRecording_p2 noFaults (recordingState recapturing_p2) recapturing_p2))))
      = \<lparr>isRecording = False, isPaused = False, duration = 0, audioUrl = Some 6,
         isUploading = False\<rparr>
   \<and> objectUrls (timeoutFired_p2 12 (recorderStopEvent_p2 9
        (snd (stopRecording_p2 noFaults (recordingState recapturing_p2) recapturing_p2)))) 6
      = Some [7, 8, 9]"
  using recapturing_p2_facts
  by (simp add: p2_defs call_defs noFaults_def)

text \<open>
  C2. \<open>forceReset\<close> and \<open>clearRecording\<close> always end idle, run every release even
  after one throws, and never throw. \<open>forceReset\<close> does
  (\<open>forceReset_always_resets\<close>, \<open>forceReset_releases_each\<close>), and \<open>clearRecording\<close>
  does when nothing throws (\<open>clearRecording_noFaults_resets\<close>). But no statement of
  \<open>clearRecording\<close> is guarded: in the session whose recorder stopped by itself,
  on a platform where \<open>stop()\<close> of an inactive recorder throws, \<open>clearRecording\<close>
  revokes the object URL, throws at \<open>stop()\<close> and skips the rest. The hook still
  shows as recording with the revoked URL, the interval runs, the chunks and the
  refs stay. \<open>forceReset\<close> on the same input returns and resets.
\<close>

theorem C2_clearRecording_throws_and_skips_the_remaining_releases:
  "fst (clearRecording inactiveStopThrows (recordingState unpluggedSession) unpluggedSession)
     = Threw (DOMException ''InvalidStateError'')
   \<and> recordingState
       (snd (clearRecording inactiveStopThrows (recordingState unpluggedSession) unpluggedSession))
     = \<lparr>isRecording = True, isPaused = False, duration = 0, audioUrl = Some 4,
        isUploading = False\<rparr>
   \<and> objectUrls
       (snd (clearRecording inactiveStopThrows (recordingState unpluggedSession) unpluggedSession)) 4
     = None
   \<and> chunksRef
       (snd (clearRecording inactiveStopThrows (recordingState unpluggedSession) unpluggedSession))
     = [[1, 2]]
   \<and> streamRef
       (snd (clearRecording inactiveStopThrows (recordingState unpluggedSession) unpluggedSession))
     = Some 0
   \<and> intervalRef
       (snd (clearRecording inactiveStopThrows (recordingState unpluggedSession) unpluggedSession))
     = Some 3
   \<and> 3 \<in> activeIntervals
       (snd (clearRecording inactiveStopThrows (recordingState unpluggedSession) unpluggedSession))
   \<and> fst (forceReset inactiveStopThrows (recordingState unpluggedSession) unpluggedSession)
     = Returned
   \<and> recordingState
       (snd (forceReset inactiveStopThrows (recordingState unpluggedSession) unpluggedSession))
     = initialRecordingState"
proof -
  have u: "recordingState unpluggedSession =
       \<lparr>isRecording = True, isPaused = False, duration = 0, audioUrl = Some 4,
        isUploading = False\<rparr>
     \<and> mediaRecorderRef unpluggedSession = Some 2 \<and> streamRef unpluggedSession = Some 0
     \<and> intervalRef unpluggedSession = Some 3 \<and> chunksRef unpluggedSession = [[1, 2]]
     \<and> 3 \<in> activeIntervals unpluggedSession"
    by (simp add: unpluggedSession_def trace_defs call_defs)
  have "clearRecording inactiveStopThrows (recordingState unpluggedSession) unpluggedSession
      = (Threw (DOMException ''InvalidStateError''),
         unpluggedSession\<lparr>objectUrls := (objectUrls unpluggedSession)(4 := None)\<rparr>)"
    using u by (simp add: clearRecording_def inactiveStopThrows_def call_defs noFaults_def)
  then show ?thesis using u forceReset_always_resets by simp
qed

text \<open>
  C3. When the session is not capturing (the captured \<open>isRecording\<close> is false, or
  \<open>mediaRecorderRef\<close> is empty), \<open>stopRecording\<close> of either file returns normally
  and leaves the whole session, refs and platform objects included, as it was,
  whatever the platform calls would have done.
\<close>

theorem C3_stop_when_not_capturing_is_identity:
  "\<not> isRecording snap \<or> mediaRecorderRef s = None \<Longrightarrow>
   stopRecording p snap s = (Returned, s) \<and> stopRecording_p2 p snap s = (Returned, s)"
  by (auto simp: stopRecording_def stopRecording_p2_def split: option.splits)

theorem C3_stop_when_not_capturing_witness:
  "\<not> isRecording (recordingState readySession)
   \<and> stopRecording noFaults (recordingState readySession) readySession = (Returned, readySession)
   \<and> stopRecording_p2 noFaults (recordingState readySession) readySession
       = (Returned, readySession)"
proof -
  have h: "\<not> isRecording (recordingState readySession)"
    using readySession_facts by simp
  then show ?thesis
    using C3_stop_when_not_capturing_is_identity
            [of "recordingState readySession" readySession noFaults]
    by simp
qed

text \<open>
  C4, as amended. A successful \<open>startRecording\<close> (either file), from any session,
  returns with \<open>isRecording\<close> set, \<open>duration\<close> 0 and \<open>chunksRef\<close> empty. It does
  not discard the artifact of a previous recording: \<open>audioUrl\<close> and the object URLs
  are left exactly as they were.
\<close>

theorem C4_start_resets_duration_and_chunks_and_keeps_the_handle:
  "fst (startRecording NoFault sample snap s) = Returned
   \<and> isRecording (recordingState (snd (startRecording NoFault sample snap s)))
   \<and> duration (recordingState (snd (startRecording NoFault sample snap s))) = 0
   \<and> chunksRef (snd (startRecording NoFault sample snap s)) = []
   \<and> audioUrl (recordingState (snd (startRecording NoFault sample snap s)))
       = audioUrl (recordingState s)
   \<and> objectUrls (snd (startRecording NoFault sample snap s)) = objectUrls s"
  by (simp add: startRecording_def Let_def updateAudioLevel_def call_defs split: option.splits)

text \<open>The claim as stated fails on the ready session: after a successful start the
  handle of the previous recording (object URL 4, naming its two bytes) is still
  there.\<close>

theorem C4_previous_handle_survives_start:
  "\<not> isRecording (recordingState readySession)
   \<and> audioUrl (recordingState readySession) = Some 4
   \<and> fst (startRecording NoFault [] (recordingState readySession) readySession) = Returned
   \<and> audioUrl (recordingState
        (snd (startRecording NoFault [] (recordingState readySession) readySession))) = Some 4
   \<and> objectUrls (snd (startRecording NoFault [] (recordingState readySession) readySession)) 4
       = Some [1, 2]"
  using readySession_facts
  by (simp add: startRecording_def Let_def updateAudioLevel_def call_defs split: option.splits)

text \<open>
  C5. When device access is denied or unavailable, \<open>startRecording\<close> throws the
  error of its \<open>catch\<close> block to the caller and the session, refs and platform
  objects included, is exactly what it was: no field is modified and nothing is
  acquired, so an idle session stays idle and the call can be repeated.
\<close>

theorem C5_denied_start_throws_and_changes_nothing:
  "startRecording DeviceDenied sample snap s = (Threw startError, s)"
  by (simp add: startRecording_def)

text \<open>
  C6, as amended. \<^verbatim>\<open>part_002\<close>: \<open>stopRecording\<close> is called on a recording hook and
  the recorder's \<open>stop\<close> event never fires. If the recorder is recording, the call
  returns with a 2000 ms timeout pending, which chunks arriving meanwhile do not
  remove; when it fires the hook is not recording, and with a chunk stored
  \<open>audioUrl\<close> names the concatenation of the chunks that have arrived, with none
  no object URL is created and \<open>audioUrl\<close> keeps the value it had. If the recorder
  is not recording, the call itself ends the same way at once.
\<close>

theorem C6_fallback_timeout_ends_the_capture:
  assumes "mediaRecorderRef s = Some r" and "recorders s r = Some m" and "isRecording snap"
  shows "fst (stopRecording_p2 noFaults snap s) = Returned \<and>
    (state m = Recording \<longrightarrow>
       timeouts (chunksArrive ds (snd (stopRecording_p2 noFaults snap s))) (nextId s)
         = Some (StopFallback, 2000)
       \<and> (let s2 = chunksArrive ds (snd (stopRecording_p2 noFaults snap s));
               s3 = timeoutFired_p2 (nextId s) s2
          in \<not> isRecording (recordingState s3)
             \<and> chunksRef s2 = chunksRef s @ filter (\<lambda>d. length d > 0) ds
             \<and> (if chunksRef s2 = []
                 then audioUrl (recordingState s3) = audioUrl (recordingState s)
                      \<and> objectUrls s3 = objectUrls s
                 else audioUrl (recordingState s3) = Some (Suc (nextId s))
                      \<and> objectUrls s3 (Suc (nextId s)) = Some (concat (chunksRef s2)))))
    \<and> (state m \<noteq> Recording \<longrightarrow>
         (let s1 = snd (stopRecording_p2 noFaults snap s)
          in \<not> isRecording (recordingState s1)
             \<and> (if chunksRef s = []
                 then audioUrl (recordingState s1) = audioUrl (recordingState s)
                      \<and> objectUrls s1 = objectUrls s
                 else audioUrl (recordingState s1) = Some (nextId s)
                      \<and> objectUrls s1 (nextId s) = Some (concat (chunksRef s)))))"
proof (cases "state m = Recording")
  case True
  let ?s1 = "snd (stopRecording_p2 noFaults snap s)"
  let ?s2 = "chunksArrive ds ?s1"
  note a = stopRecording_p2_arms_fallback [OF assms(1,2) True assms(3)]
  have t: "timeouts ?s2 (nextId s) = Some (StopFallback, 2000)"
    using a by (simp add: chunksArrive_frame)
  have c: "chunksRef ?s2 = chunksRef s @ filter (\<lambda>d. length d > 0) ds"
    using a by (simp add: chunksRef_chunksArrive)
  have f: "timeoutFired_p2 (nextId s) ?s2 = handleStopFallback (clearTimeout (nextId s) ?s2)"
    using t by (simp add: timeoutFired_p2_def)
  have n: "nextId (clearTimeout (nextId s) ?s2) = Suc (nextId s)"
      "chunksRef (clearTimeout (nextId s) ?s2) = chunksRef ?s2"
      "objectUrls (clearTimeout (nextId s) ?s2) = objectUrls s"
      "recordingState (clearTimeout (nextId s) ?s2) = recordingState s"
    using a by (simp_all add: clearTimeout_def chunksArrive_frame)
  show ?thesis
    using True a t c handleStopFallback_result [of "clearTimeout (nextId s) ?s2"]
    by (simp add: f n Let_def split: if_splits)
next
  case False
  show ?thesis
    using False stopRecording_p2_not_recording [OF assms(1,2) False assms(3)]
      handleStopFallback_result [of s]
    by (simp add: Let_def split: if_splits)
qed

theorem C6_fallback_timeout_witness:
  "mediaRecorderRef capturing_p2 = Some 2
   \<and> recorders capturing_p2 2 = Some \<lparr>state = Recording, onstop = InstalledByStart\<rparr>
   \<and> isRecording (recordingState capturing_p2)
   \<and> timeouts (snd (stopRecording_p2 noFaults (recordingState capturing_p2) capturing_p2)) 4
       = Some (StopFallback, 2000)
   \<and> \<not> isRecording (recordingState (timeoutFired_p2 4
         (snd (stopRecording_p2 noFaults (recordingState capturing_p2) capturing_p2))))
   \<and> audioUrl (recordingState (timeoutFired_p2 4
         (snd (stopRecording_p2 noFaults (recordingState capturing_p2) capturing_p2)))) = Some 5
   \<and> objectUrls (timeoutFired_p2 4
         (snd (stopRecording_p2 noFaults (recordingState capturing_p2) capturing_p2))) 5
       = Some [7, 8, 9]"
proof -
  note b = capturing_p2_facts
  have h1: "mediaRecorderRef capturing_p2 = Some 2"
    and h2: "recorders capturing_p2 2 = Some \<lparr>state = Recording, onstop = InstalledByStart\<rparr>"
    and h3: "isRecording (recordingState capturing_p2)"
    using b by simp_all
  have k: "chunksRef (snd (stopRecording_p2 noFaults (recordingState capturing_p2) capturing_p2))
      = [[7, 8, 9]]"
    using stopRecording_p2_arms_fallback [OF h1 h2 _ h3] b by simp
  show ?thesis
    using b k C6_fallback_timeout_ends_the_capture [OF h1 h2 h3, of "[]"]
    by (simp add: chunksArrive_Nil Let_def)
qed

text \<open>The claim as stated fails on a second recording that gets no chunk: when the
  fallback timeout (identity 11) fires the hook is not recording, and \<open>audioUrl\<close>
  still holds the first recording's object URL 6 with its three bytes.\<close>

theorem C6_no_chunk_fallback_leaves_the_previous_handle:
  "isRecording (recordingState recapturing_p2) \<and> chunksRef recapturing_p2 = []
   \<and> timeouts (snd (stopRecording_p2 noFaults (recordingState recapturing_p2) recapturing_p2))
        11 = Some (StopFallback, 2000)
   \<and> recordingState (timeoutFired_p2 11
        (snd (stopRecording_p2 noFaults (recordingState recapturing_p2) recapturing_p2)))
      = \<lparr>isRecording = False, isPaused = False, duration = 0, audioUrl = Some 6,
         isUploading = False\<rparr>
   \<and> objectUrls (timeoutFired_p2 11
        (snd (stopRecording_p2 noFaults (recordingState recapturing_p2) recapturing_p2))) 6
      = Some [7, 8, 9]"
  using recapturing_p2_facts
  by (simp add: p2_defs call_defs noFaults_def)




text \<open>
  C8, as amended. \<open>audioUrl\<close> is absent at mount. Of all events of the hook
  (\<^verbatim>\<open>useAudioRecorder.ts\<close>) only three change it: the \<open>stop\<close> event of an existing
  recorder sets it to a fresh object URL, and \<open>forceReset\<close> and a \<open>clearRecording\<close>
  that runs to its end empty it. Interval ticks, chunks, animation frames,
  \<open>startRecording\<close> (successful or not) and \<open>stopRecording\<close> leave it as it is. So
  the handle is present in every ready session and absent after clear and reset,
  and it is also present while recording whenever the recording was started with a
  handle present.
\<close>

theorem C8_what_changes_the_artifact_handle:
  "audioUrl (recordingState initialSession) = None
   \<and> audioUrl (recordingState (handleEvent ev s)) =
      (case ev of
         RecorderStopped r \<Rightarrow>
           (case recorders s r of None \<Rightarrow> audioUrl (recordingState s)
            | Some m \<Rightarrow> Some (nextId s))
       | ClearClicked p b \<Rightarrow>
           (if fst (clearRecording p ((recordingState s)\<lparr>isRecording := b\<rparr>) s) = Returned
            then None else audioUrl (recordingState s))
       | QuestionChanged p b \<Rightarrow> None
       | _ \<Rightarrow> audioUrl (recordingState s))"
proof -
  have "audioUrl (recordingState (handleEvent ev s)) =
      (case ev of
         RecorderStopped r \<Rightarrow>
           (case recorders s r of None \<Rightarrow> audioUrl (recordingState s)
            | Some m \<Rightarrow> Some (nextId s))
       | ClearClicked p b \<Rightarrow>
           (if fst (clearRecording p ((recordingState s)\<lparr>isRecording := b\<rparr>) s) = Returned
            then None else audioUrl (recordingState s))
       | QuestionChanged p b \<Rightarrow> None
       | _ \<Rightarrow> audioUrl (recordingState s))"
  proof (cases ev)
    case (IntervalFired i)
    then show ?thesis by (simp add: intervalTick_def setRecordingState_def)
  next
    case (DataAvailable d)
    then show ?thesis by (simp add: mediaRecorder_ondataavailable_def)
  next
    case (RecorderStopped r)
    then show ?thesis
      by (simp add: mediaRecorder_onstop_def createObjectURL_def call_defs split: option.splits)
  next
    case (AnimationFrame sample)
    then show ?thesis by (simp add: updateAudioLevel_def call_defs split: option.splits)
  next
    case (StartClicked fault sample)
    then show ?thesis
      by (cases fault)
         (simp_all add: startRecording_def Let_def updateAudioLevel_def call_defs
            split: option.splits)
  next
    case (StopClicked p)
    then show ?thesis using stopRecording_frame [of p "recordingState s" s] by simp
  next
    case (ClearClicked p b)
    then show ?thesis
      using clearRecording_any [of p "(recordingState s)\<lparr>isRecording := b\<rparr>" s]
      by (auto simp: initialRecordingState_def)
  next
    case (QuestionChanged p b)
    then show ?thesis using forceReset_always_resets by (simp add: initialRecordingState_def)
  qed
  then show ?thesis by (simp add: initialSession_def initialRecordingState_def)
qed

text \<open>The claim as stated fails on the ready session: the user starts a second
  recording, and the hook is recording with the first recording's handle
  present.\<close>

theorem C8_handle_present_while_recording:
  "isRecording (recordingState (handleEvent (StartClicked NoFault []) readySession))
   \<and> audioUrl (recordingState (handleEvent (StartClicked NoFault []) readySession)) = Some 4"
  using readySession_facts
  by (simp add: startRecording_def Let_def updateAudioLevel_def call_defs split: option.splits)

text \<open>
  C9. At any time, also while chunks \<open>ds\<close> are still arriving, \<open>getAudioBlob\<close>
  returns the concatenation, in arrival order, of the chunks stored so far (the
  non-empty ones among those delivered), or nothing when none is stored, and it
  leaves the session as it is.
\<close>

theorem C9_getAudioBlob_snapshot:
  "getAudioBlob (chunksArrive ds s) =
     (if chunksRef s @ filter (\<lambda>d. length d > 0) ds = [] then None
      else Some (concat (chunksRef s @ filter (\<lambda>d. length d > 0) ds)),
      chunksArrive ds s)"
  by (simp add: getAudioBlob_def chunksRef_chunksArrive)

text \<open>
  C10. From the empty list of a newly mounted hook, through any fetches (answered
  with rows, with \<open>null\<close> or with an error) and any additions, the history never
  holds more than five recordings, and it is ordered newest first as long as each
  added recording is at least as new as the ones listed. A fetch puts in the list
  what the query selects: at most five rows of the question, newest first, none
  older than a row of the question left out. \<open>addRecording\<close> puts the new recording
  in front of the first four entries.
\<close>

theorem C10_history_holds_at_most_five_newest_first:
  "length (recordings (historyRun q evs initialHistory)) \<le> 5
   \<and> (addsAreNewest q evs initialHistory
        \<longrightarrow> newest_first (recordings (historyRun q evs initialHistory)))
   \<and> recordings (historyStep q (Fetched table) h) = select_recent table q
   \<and> length (select_recent table q) \<le> 5
   \<and> newest_first (select_recent table q)
   \<and> set (select_recent table q) \<subseteq> {r \<in> set table. question_id r = q}
   \<and> (\<forall>r \<in> set table. \<forall>x \<in> set (select_recent table q).
         question_id r = q \<and> r \<notin> set (select_recent table q)
         \<longrightarrow> created_at r \<le> created_at x)
   \<and> recordings (historyStep q (RecordingAdded r) h) = r # take 4 (recordings h)"
  using historyRun_length [of initialHistory q evs]
    historyRun_newest_first [of initialHistory q evs]
    select_recent_length [of table q] select_recent_newest_first [of table q]
    select_recent_subset [of table q] select_recent_most_recent [of _ table q]
  by (auto simp: initialHistory_def newest_first_def fetchRecordings_def addRecording_def)

theorem C10_history_witness:
  "addsAreNewest ''q'' exampleHistory initialHistory
   \<and> map created_at (recordings (historyRun ''q'' exampleHistory initialHistory))
       = [7, 6, 5, 4, 3]
   \<and> newest_first (recordings (historyRun ''q'' exampleHistory initialHistory))
   \<and> length (recordings (historyRun ''q'' exampleHistory initialHistory)) \<le> 5
   \<and> exampleRow 1 \<in> set exampleTable
   \<and> exampleRow 1 \<notin> set (select_recent exampleTable ''q'')
   \<and> exampleRow 6 \<in> set (select_recent exampleTable ''q'')
   \<and> created_at (exampleRow 1) \<le> created_at (exampleRow 6)"
proof -
  have sel: "select_recent exampleTable ''q''
      = [exampleRow 6, exampleRow 5, exampleRow 4, exampleRow 3, exampleRow 2]"
    by (simp add: select_recent_def exampleTable_def exampleRow_def)
  have h: "addsAreNewest ''q'' exampleHistory initialHistory"
    by (simp add: exampleHistory_def sel fetchRecordings_def initialHistory_def exampleRow_def)
  have m: "map created_at (recordings (historyRun ''q'' exampleHistory initialHistory))
      = [7, 6, 5, 4, 3]"
    by (simp add: exampleHistory_def sel fetchRecordings_def addRecording_def
          initialHistory_def exampleRow_def)
  have e: "exampleRow 1 \<in> set exampleTable
      \<and> exampleRow 1 \<notin> set (select_recent exampleTable ''q'')
      \<and> exampleRow 6 \<in> set (select_recent exampleTable ''q'')"
    by (simp add: sel) (simp add: exampleTable_def exampleRow_def)
  show ?thesis
    using C10_history_holds_at_most_five_newest_first
            [of "''q''" exampleHistory exampleTable initialHistory "exampleRow 7"] h m e
    by (simp add: exampleRow_def)
qed

end
